theory Spec2Isabelle
  imports Complex_Main
begin

section \<open>The ICARTT reader of \<^verbatim>\<open>icartt_reader.py\<close>\<close>

text \<open>
  The embedding follows \<^verbatim>\<open>src/icartt_reader.py\<close> method by method.

  \<^item> A Python \<^verbatim>\<open>str\<close> is a \<open>string\<close>; a \<open>char\<close> stands for the code point of the
    same number, so the model covers text whose code points are below 256. What Python
    does with a character (is it white space, is it a digit, does \<^verbatim>\<open>int\<close> accept it)
    is written out for all 256 of them.
  \<^item> The file the reader is bound to is the parameter \<open>content\<close>: its decoded
    characters, as \<^verbatim>\<open>open(path, "r", encoding="utf-8", errors="ignore")\<close> decodes them and
    before the text layer translates line ends. The file exists and can be read; the
    errors of the operating system are outside the model.
  \<^item> An exception is a value of \<open>error\<close>; a method that can raise returns
    \<open>error + 'a\<close>, and every index expression of the source goes through \<open>py_index\<close>,
    which raises as Python does.
  \<^item> Python's \<^verbatim>\<open>int\<close> is \<open>int\<close>; the interpreter's configurable limit on the number of
    digits of a string that \<^verbatim>\<open>int()\<close> converts is not modelled.
  \<^item> \<^verbatim>\<open>pandas\<close> is a library outside the repository: \<open>read_table\<close> is modelled up
    to the arguments it hands to \<^verbatim>\<open>pd.read_csv\<close>.
\<close>

subsection \<open>Python's string and list primitives\<close>

datatype error = ValueError | IndexError

definition bind_err :: "error + 'a \<Rightarrow> ('a \<Rightarrow> error + 'b) \<Rightarrow> error + 'b" where
  "bind_err m f = (case m of Inl e \<Rightarrow> Inl e | Inr x \<Rightarrow> f x)"

text \<open>
  \<^verbatim>\<open>xs[i]\<close>: a negative index counts from the end, an index out of range raises
  \<^verbatim>\<open>IndexError\<close>.
\<close>

definition py_index :: "'a list \<Rightarrow> int \<Rightarrow> error + 'a" where
  "py_index xs i =
     (if 0 \<le> i \<and> i < int (length xs) then Inr (xs ! nat i)
      else if i < 0 \<and> - int (length xs) \<le> i then Inr (xs ! nat (int (length xs) + i))
      else Inl IndexError)"

text \<open>
  \<^verbatim>\<open>xs[start:stop]\<close>: a negative bound counts from the end, and both bounds are
  clipped to the list; a slice never raises.
\<close>

definition py_slice :: "'a list \<Rightarrow> int \<Rightarrow> int \<Rightarrow> 'a list" where
  "py_slice xs start stop =
     (let n = int (length xs);
          lo = (if start < 0 then max (start + n) 0 else min start n);
          hi = (if stop < 0 then max (stop + n) 0 else min stop n)
      in take (nat (hi - lo)) (drop (nat lo) xs))"

text \<open>
  The characters \<^verbatim>\<open>str.strip()\<close> and \<^verbatim>\<open>str.split()\<close> treat as white space, among the
  code points below 256: tab, line feed, vertical tab, form feed, carriage return, the four
  separators 0x1C to 0x1F, space, next line (0x85) and no-break space (0xA0).
\<close>

definition py_isspace :: "char \<Rightarrow> bool" where
  "py_isspace c \<longleftrightarrow>
     c \<in> set [CHR 0x09, CHR 0x0A, CHR 0x0B, CHR 0x0C, CHR 0x0D, CHR 0x1C, CHR 0x1D,
              CHR 0x1E, CHR 0x1F, CHR 0x20, CHR 0x85, CHR 0xA0]"

definition strip :: "string \<Rightarrow> string" where
  "strip s = rev (dropWhile py_isspace (rev (dropWhile py_isspace s)))"

text \<open>\<^verbatim>\<open>line.rstrip("\n")\<close> removes every trailing line feed.\<close>

definition rstrip_nl :: "string \<Rightarrow> string" where
  "rstrip_nl s = rev (dropWhile (\<lambda>c. c = CHR 0x0A) (rev s))"

text \<open>
  \<^verbatim>\<open>s.split(sep)\<close> for a one-character separator: one piece more than there are
  separators, empty pieces kept. \<open>cur\<close> is the piece being read.
\<close>

fun split_acc :: "char \<Rightarrow> string \<Rightarrow> string \<Rightarrow> string list" where
  "split_acc sep cur [] = [cur]"
| "split_acc sep cur (c # cs) =
     (if c = sep then cur # split_acc sep [] cs else split_acc sep (cur @ [c]) cs)"

definition py_split :: "char \<Rightarrow> string \<Rightarrow> string list" where
  "py_split sep s = split_acc sep [] s"

text \<open>\<^verbatim>\<open>s.split()\<close>: the maximal runs of characters that are not white space.\<close>

fun ws_split_acc :: "string \<Rightarrow> string \<Rightarrow> string list" where
  "ws_split_acc cur [] = (if cur = [] then [] else [cur])"
| "ws_split_acc cur (c # cs) =
     (if py_isspace c
      then (if cur = [] then ws_split_acc [] cs else cur # ws_split_acc [] cs)
      else ws_split_acc (cur @ [c]) cs)"

definition py_ws_split :: "string \<Rightarrow> string list" where
  "py_ws_split s = ws_split_acc [] s"

text \<open>\<^verbatim>\<open>s.replace(",", " ")\<close>.\<close>

definition replace_comma :: "string \<Rightarrow> string" where
  "replace_comma s = map (\<lambda>c. if c = CHR '','' then CHR '' '' else c) s"

text \<open>\<^verbatim>\<open>",".join(parts)\<close>.\<close>

fun join_comma :: "string list \<Rightarrow> string" where
  "join_comma [] = []"
| "join_comma [p] = p"
| "join_comma (p # q # ps) = p @ '','' @ join_comma (q # ps)"

text \<open>
  \<^verbatim>\<open>int(s)\<close> in base ten. The digits it accepts below code point 256 are \<^verbatim>\<open>0\<close> to
  \<^verbatim>\<open>9\<close>; one sign may come first; a single underscore may stand between two digits.
  Anything else raises \<^verbatim>\<open>ValueError\<close>. \<^verbatim>\<open>int\<close> also skips white space around the
  number: every call of the source passes a string it has stripped or a token of
  \<^verbatim>\<open>split()\<close>, where there is none to skip, so the model reads the number at once.
\<close>

definition is_ascii_digit :: "char \<Rightarrow> bool" where
  "is_ascii_digit c \<longleftrightarrow> c \<in> set ''0123456789''"

definition digit_val :: "char \<Rightarrow> nat" where
  "digit_val c = of_char c - 48"

fun digits_acc :: "nat \<Rightarrow> string \<Rightarrow> nat option" where
  "digits_acc acc [] = Some acc"
| "digits_acc acc (c # cs) =
     (if is_ascii_digit c then digits_acc (10 * acc + digit_val c) cs
      else if c = CHR ''_'' then
        (case cs of
           [] \<Rightarrow> None
         | d # ds \<Rightarrow>
             if is_ascii_digit d then digits_acc (10 * acc + digit_val d) ds else None)
      else None)"

definition parse_unsigned :: "string \<Rightarrow> nat option" where
  "parse_unsigned s =
     (case s of
        [] \<Rightarrow> None
      | c # cs \<Rightarrow> if is_ascii_digit c then digits_acc (digit_val c) cs else None)"

definition py_int :: "string \<Rightarrow> error + int" where
  "py_int s =
     (case s of
        [] \<Rightarrow> Inl ValueError
      | c # cs \<Rightarrow>
          if c = CHR ''-'' then
            (case parse_unsigned cs of None \<Rightarrow> Inl ValueError | Some n \<Rightarrow> Inr (- int n))
          else if c = CHR ''+'' then
            (case parse_unsigned cs of None \<Rightarrow> Inl ValueError | Some n \<Rightarrow> Inr (int n))
          else
            (case parse_unsigned s of None \<Rightarrow> Inl ValueError | Some n \<Rightarrow> Inr (int n)))"

text \<open>
  \<^verbatim>\<open>s.isdigit()\<close>: the string is not empty and every character is a digit. Below code
  point 256 Python counts the superscripts two, three and one (0xB2, 0xB3, 0xB9) as
  digits, which \<^verbatim>\<open>int\<close> does not accept.
\<close>

definition py_isdigit_char :: "char \<Rightarrow> bool" where
  "py_isdigit_char c \<longleftrightarrow> is_ascii_digit c \<or> c \<in> set [CHR 0xB2, CHR 0xB3, CHR 0xB9]"

definition py_isdigit :: "string \<Rightarrow> bool" where
  "py_isdigit s \<longleftrightarrow> s \<noteq> [] \<and> list_all py_isdigit_char s"

text \<open>\<^verbatim>\<open>str(n)\<close> of an integer: its decimal digits, after a minus sign when negative.\<close>

fun str_nat :: "nat \<Rightarrow> string" where
  "str_nat n =
     (if n < 10 then [char_of (48 + n)] else str_nat (n div 10) @ [char_of (48 + n mod 10)])"

definition str_int :: "int \<Rightarrow> string" where
  "str_int i = (if i < 0 then ''-'' @ str_nat (nat (- i)) else str_nat (nat i))"

subsection \<open>Reading the file as text\<close>

text \<open>
  A file opened in text mode with the default \<^verbatim>\<open>newline=None\<close> hands out \<^verbatim>\<open>\r\n\<close>
  and a lone \<^verbatim>\<open>\r\<close> as \<^verbatim>\<open>\n\<close>.
\<close>

fun universal_newlines :: "string \<Rightarrow> string" where
  "universal_newlines [] = []"
| "universal_newlines (c # cs) =
     (if c = CHR 0x0D then
        (case cs of
           [] \<Rightarrow> [CHR 0x0A]
         | d # ds \<Rightarrow>
             if d = CHR 0x0A then CHR 0x0A # universal_newlines ds
             else CHR 0x0A # universal_newlines cs)
      else c # universal_newlines cs)"

text \<open>
  \<^verbatim>\<open>f.readline()\<close> on the text still to be read: the line with its line feed, and the
  rest of the text. At the end of the file the line is empty.
\<close>

fun readline :: "string \<Rightarrow> string \<times> string" where
  "readline [] = ([], [])"
| "readline (c # cs) =
     (if c = CHR 0x0A then ([c], cs)
      else (case readline cs of (l, r) \<Rightarrow> (c # l, r)))"

subsection \<open>The data model\<close>

record ICARTTInfo =
  path :: string
  header_length :: int
  ffi :: string

record VariableDef =
  name :: string
  unit :: "string option"
  description :: "string option"
  missing :: "real option"

text \<open>
  The reader holds \<^verbatim>\<open>self.path\<close> and \<^verbatim>\<open>self.info\<close>. A path is kept as the string
  \<^verbatim>\<open>str(Path(path))\<close>.
\<close>

record ICARTTReader =
  self_path :: string
  self_info :: ICARTTInfo

subsection \<open>Format information and construction\<close>

definition read_info :: "string \<Rightarrow> string \<Rightarrow> error + ICARTTInfo" where
  "read_info p content =
     (let line1 = strip (fst (readline (universal_newlines content)));
          parts = map strip (py_split CHR '','' line1)
      in if length parts < 2 then Inl ValueError
         else
           bind_err (py_index parts 0) (\<lambda>p0.
           bind_err (py_int p0) (\<lambda>hl.
           bind_err (py_index parts 1) (\<lambda>p1.
           Inr \<lparr>path = p, header_length = hl, ffi = p1\<rparr>))))"

definition ICARTTReader_init :: "string \<Rightarrow> string \<Rightarrow> error + ICARTTReader" where
  "ICARTTReader_init p content =
     bind_err (read_info p content) (\<lambda>i. Inr \<lparr>self_path = p, self_info = i\<rparr>)"

subsection \<open>The header lines\<close>

text \<open>
  The loop of \<open>read_header_lines\<close>: \<open>k\<close> iterations are left, \<open>f\<close> is the text
  still to be read, \<open>lines\<close> the list built so far.
\<close>

fun read_loop :: "nat \<Rightarrow> string \<Rightarrow> string list \<Rightarrow> string list" where
  "read_loop 0 f lines = lines"
| "read_loop (Suc k) f lines =
     (case readline f of
        (line, f') \<Rightarrow>
          if line = [] then lines else read_loop k f' (lines @ [rstrip_nl line]))"

text \<open>\<^verbatim>\<open>range(n)\<close> is empty for \<open>n \<le> 0\<close>: it runs \<open>nat n\<close> times.\<close>

definition read_header_lines :: "string \<Rightarrow> ICARTTReader \<Rightarrow> string list" where
  "read_header_lines content self =
     read_loop (nat (header_length (self_info self))) (universal_newlines content) []"

subsection \<open>Missing values\<close>

text \<open>
  The inner loop of \<open>_guess_missing_values\<close> over the tokens of one line, and the outer
  loop over the lines; \<open>cands\<close> is the list \<^verbatim>\<open>candidates\<close>. \<^verbatim>\<open>int(tok)\<close> is not
  guarded: when it raises, the method raises.
\<close>

definition startswith_sign :: "string \<Rightarrow> bool" where
  "startswith_sign tok = (case tok of [] \<Rightarrow> False | c # _ \<Rightarrow> c = CHR ''-'' \<or> c = CHR ''+'')"

fun tok_loop :: "string list \<Rightarrow> int list \<Rightarrow> error + int list" where
  "tok_loop [] cands = Inr cands"
| "tok_loop (tok # toks) cands =
     (if startswith_sign tok \<and> py_isdigit (drop 1 tok) then
        bind_err (py_int tok) (\<lambda>val.
          tok_loop toks (if 999 \<le> \<bar>val\<bar> then cands @ [val] else cands))
      else tok_loop toks cands)"

fun line_loop :: "string list \<Rightarrow> int list \<Rightarrow> error + int list" where
  "line_loop [] cands = Inr cands"
| "line_loop (line # lns) cands =
     bind_err (tok_loop (py_ws_split (replace_comma line)) cands) (\<lambda>cands'.
       line_loop lns cands')"

text \<open>The loop that removes duplicates, with the set \<^verbatim>\<open>seen\<close> and the list \<^verbatim>\<open>ordered\<close>.\<close>

fun dedup_loop :: "int list \<Rightarrow> int set \<Rightarrow> int list \<Rightarrow> int list" where
  "dedup_loop [] seen ordered = ordered"
| "dedup_loop (v # vs) seen ordered =
     (if v \<notin> seen then dedup_loop vs (insert v seen) (ordered @ [v])
      else dedup_loop vs seen ordered)"

definition default_missing :: "int list" where
  "default_missing = [- 9999, - 99999, - 8888, 9999, 99999]"

definition guess_missing_values :: "string \<Rightarrow> ICARTTReader \<Rightarrow> error + int list" where
  "guess_missing_values content self =
     (let lines = read_header_lines content self
      in bind_err (line_loop (py_slice lines 0 (min (int (length lines)) 200)) []) (\<lambda>candidates.
           let ordered = dedup_loop candidates {} []
           in Inr (if ordered = [] then default_missing else ordered)))"

text \<open>\<open>_guess_per_variable_missing\<close> returns the empty dictionary.\<close>

definition guess_per_variable_missing :: "string \<Rightarrow> ICARTTReader \<Rightarrow> (string \<times> real) list" where
  "guess_per_variable_missing content self = []"

subsection \<open>The table\<close>

text \<open>
  \<open>read_table\<close> up to its call of \<^verbatim>\<open>pd.read_csv\<close>: the arguments of the call. The
  missing values the caller passes are \<open>Some\<close> list, or \<open>None\<close>.
\<close>

record read_csv_call =
  skiprows :: int
  sep :: string
  na_values :: "int list"

definition read_table_call ::
  "string \<Rightarrow> ICARTTReader \<Rightarrow> int list option \<Rightarrow> error + read_csv_call" where
  "read_table_call content self na =
     (let skip = max (header_length (self_info self) - 1) 0
      in bind_err (case na of None \<Rightarrow> guess_missing_values content self | Some vs \<Rightarrow> Inr vs)
           (\<lambda>vs. Inr \<lparr>skiprows = skip, sep = '','', na_values = vs\<rparr>))"

subsection \<open>Metadata\<close>

text \<open>
  A \<^verbatim>\<open>dict\<close> keeps its keys in the order they were first set: an association list
  with one pair for each key.
\<close>

fun dict_set :: "(string \<times> string) list \<Rightarrow> string \<Rightarrow> string \<Rightarrow> (string \<times> string) list" where
  "dict_set [] k v = [(k, v)]"
| "dict_set ((k', v') # m) k v =
     (if k' = k then (k', v) # m else (k', v') # dict_set m k v)"

text \<open>The local function \<^verbatim>\<open>safe(i)\<close> of \<open>read_metadata\<close>.\<close>

definition safe :: "string list \<Rightarrow> int \<Rightarrow> error + string" where
  "safe lines i =
     (if 0 \<le> i \<and> i < int (length lines)
      then bind_err (py_index lines i) (\<lambda>l. Inr (strip l))
      else Inr [])"

definition read_metadata :: "string \<Rightarrow> ICARTTReader \<Rightarrow> error + (string \<times> string) list" where
  "read_metadata content self =
     (let lines = read_header_lines content self;
          m0 = dict_set [] ''path'' (self_path self);
          m1 = dict_set m0 ''header_length'' (str_int (header_length (self_info self)));
          m2 = dict_set m1 ''ffi'' (ffi (self_info self))
      in bind_err (safe lines 1) (\<lambda>v1.
         bind_err (safe lines 2) (\<lambda>v2.
         bind_err (safe lines 3) (\<lambda>v3.
         bind_err (safe lines 4) (\<lambda>v4.
         bind_err (safe lines 5) (\<lambda>v5.
         bind_err (safe lines 6) (\<lambda>v6.
         bind_err (safe lines 7) (\<lambda>v7.
         bind_err (safe lines 8) (\<lambda>v8.
           let m3 = dict_set m2 ''pi'' v1;
               m4 = dict_set m3 ''organization'' v2;
               m5 = dict_set m4 ''data_description'' v3;
               m6 = dict_set m5 ''mission'' v4;
               m7 = dict_set m6 ''volume_info'' v5;
               m8 = dict_set m7 ''date_info'' v6;
               m9 = dict_set m8 ''data_interval'' v7;
               m10 = dict_set m9 ''independent_variable'' v8
           in Inr (filter (\<lambda>(k, v). v \<noteq> []) m10))))))))))"

subsection \<open>Variable definitions\<close>

text \<open>\<^verbatim>\<open>x or None\<close> for an optional string: the empty string becomes \<open>None\<close>.\<close>

definition or_none :: "string option \<Rightarrow> string option" where
  "or_none x = (case x of None \<Rightarrow> None | Some s \<Rightarrow> if s = [] then None else Some s)"

text \<open>
  The body of the loop over the block, for one line: \<open>None\<close> is the \<^verbatim>\<open>continue\<close>,
  \<open>Some\<close> the entry appended to \<^verbatim>\<open>out\<close>.
\<close>

definition var_of_line :: "string \<Rightarrow> error + VariableDef option" where
  "var_of_line line =
     (let parts = map strip (py_split CHR '','' line)
      in if parts = [] then Inr None
         else
           bind_err (py_index parts 0) (\<lambda>nm.
           bind_err (if 1 < length parts
                     then bind_err (py_index parts 1) (\<lambda>u. Inr (Some u))
                     else Inr None) (\<lambda>un.
             let desc = (if 2 < length parts
                         then Some (strip (join_comma (py_slice parts 2 (int (length parts)))))
                         else None)
             in Inr (Some \<lparr>name = nm, unit = or_none un, description = or_none desc,
                           missing = None\<rparr>))))"

fun var_loop :: "string list \<Rightarrow> VariableDef list \<Rightarrow> error + VariableDef list" where
  "var_loop [] out = Inr out"
| "var_loop (line # lns) out =
     bind_err (var_of_line line) (\<lambda>r.
       var_loop lns (case r of None \<Rightarrow> out | Some v \<Rightarrow> out @ [v]))"

definition read_variable_defs :: "string \<Rightarrow> ICARTTReader \<Rightarrow> error + VariableDef list" where
  "read_variable_defs content self =
     (let lines = read_header_lines content self
      in if length lines < 11 then Inr []
         else
           (case bind_err (py_index lines 9) (\<lambda>l9. py_int (strip l9)) of
              Inl e \<Rightarrow> Inr []
            | Inr n_dep \<Rightarrow>
                let start = 12;
                    block = py_slice lines start (start + n_dep)
                in bind_err (var_loop block []) (\<lambda>out.
                     let miss_map = guess_per_variable_missing content self
                     in Inr (if miss_map \<noteq> []
                             then map (\<lambda>v. \<lparr>name = name v, unit = unit v,
                                             description = description v,
                                             missing = map_of miss_map (name v)\<rparr>) out
                             else out))))"

subsection \<open>The specification's notions\<close>

text \<open>
  The lines of a text, as the specification counts them: the pieces between line feeds,
  without the line feed; a line feed at the very end starts no further line.
\<close>

definition lines_of :: "string \<Rightarrow> string list" where
  "lines_of t = (let ps = py_split CHR 0x0A t in if last ps = [] then butlast ps else ps)"

definition file_lines :: "string \<Rightarrow> string list" where
  "file_lines content = lines_of (universal_newlines content)"

text \<open>
  The first line of the file, and the tokens of a line: the pieces between commas, each
  trimmed. \<open>parses_nonneg\<close> says that a token parses as an integer that is not negative.
\<close>

definition first_line :: "string \<Rightarrow> string" where
  "first_line content = (case file_lines content of [] \<Rightarrow> [] | l # _ \<Rightarrow> l)"

definition comma_tokens :: "string \<Rightarrow> string list" where
  "comma_tokens l = map strip (py_split CHR '','' l)"

definition parses_nonneg :: "string \<Rightarrow> bool" where
  "parses_nonneg tok = (case py_int tok of Inl _ \<Rightarrow> False | Inr n \<Rightarrow> 0 \<le> n)"

text \<open>
  The entry the specification describes for one line of the variable block: the name is the
  first token, the unit the second when there is one and it is not empty, the description
  the remaining tokens joined with commas and trimmed, when there are any and the result is
  not empty.
\<close>

definition spec_entry :: "string \<Rightarrow> VariableDef" where
  "spec_entry l =
     (let toks = comma_tokens l
      in \<lparr>name = hd toks,
          unit = (if 2 \<le> length toks \<and> toks ! 1 \<noteq> [] then Some (toks ! 1) else None),
          description =
            (if 3 \<le> length toks \<and> strip (join_comma (drop 2 toks)) \<noteq> []
             then Some (strip (join_comma (drop 2 toks))) else None),
          missing = None\<rparr>)"

text \<open>
  The value the specification maps to a metadata field: the trimmed header line at the
  field's position, or the empty string when the header has no such line. A value is
  recorded (\<open>present\<close>) when it is not empty. \<open>metadata_keys\<close> is the fixed set of
  keys.
\<close>

definition header_field :: "string list \<Rightarrow> nat \<Rightarrow> string" where
  "header_field lines i = (if i < length lines then strip (lines ! i) else [])"

definition present :: "string \<Rightarrow> string option" where
  "present v = (if v = [] then None else Some v)"

definition metadata_keys :: "string list" where
  "metadata_keys =
     [''path'', ''header_length'', ''ffi'', ''pi'', ''organization'', ''data_description'',
      ''mission'', ''volume_info'', ''date_info'', ''data_interval'', ''independent_variable'']"

text \<open>
  The candidates of the missing-value heuristic, in the specification's words. A token is a
  candidate token when it begins with \<^verbatim>\<open>+\<close> or \<^verbatim>\<open>-\<close> and the remainder is a
  non-empty run of the digits \<^verbatim>\<open>0\<close> to \<^verbatim>\<open>9\<close>; its value is the decimal number with
  that sign. The tokens are those of the first at most 200 header lines, split at white
  space and commas; the candidates are the values of magnitude at least 999, in order.
  \<open>first_occurrences\<close> keeps the first occurrence of each value. A token is odd when it
  passes the guard of the code (a sign, then characters \<^verbatim>\<open>isdigit()\<close> accepts) without
  being a candidate token: one of its digits is a superscript.
\<close>

definition signed_digits :: "string \<Rightarrow> bool" where
  "signed_digits tok =
     (case tok of
        [] \<Rightarrow> False
      | c # ds \<Rightarrow> (c = CHR ''+'' \<or> c = CHR ''-'') \<and> ds \<noteq> [] \<and> list_all is_ascii_digit ds)"

definition decimal_value :: "string \<Rightarrow> nat" where
  "decimal_value ds = foldl (\<lambda>a c. 10 * a + digit_val c) 0 ds"

definition signed_value :: "string \<Rightarrow> int" where
  "signed_value tok =
     (case tok of
        [] \<Rightarrow> 0
      | c # ds \<Rightarrow> if c = CHR ''-'' then - int (decimal_value ds) else int (decimal_value ds))"

definition header_tokens :: "string list \<Rightarrow> string list" where
  "header_tokens lines = concat (map (\<lambda>l. py_ws_split (replace_comma l)) (take 200 lines))"

definition spec_candidates :: "string list \<Rightarrow> int list" where
  "spec_candidates lines =
     filter (\<lambda>v. 999 \<le> \<bar>v\<bar>) (map signed_value (filter signed_digits (header_tokens lines)))"

definition first_occurrences :: "int list \<Rightarrow> int list" where
  "first_occurrences vs = rev (remdups (rev vs))"

definition odd_digit_token :: "string \<Rightarrow> bool" where
  "odd_digit_token tok \<longleftrightarrow>
     startswith_sign tok \<and> py_isdigit (drop 1 tok) \<and> \<not> signed_digits tok"

subsection \<open>Example files\<close>

text \<open>
  A file is written as the list of its lines, each ended by a line feed.
  \<open>conventional_header first count\<close> is a header of fourteen lines in the conventional
  layout, with the given first line and the given line 10 (index 9); \<open>reader_of n\<close> is
  the reader that construction returns for such a file with header length \<open>n\<close>.
\<close>

definition file_of_lines :: "string list \<Rightarrow> string" where
  "file_of_lines ls = concat (map (\<lambda>l. l @ [CHR 0x0A]) ls)"

definition conventional_header :: "string \<Rightarrow> string \<Rightarrow> string list" where
  "conventional_header first count =
     [first, ''Doe, Jane'', ''Some Lab'', ''Soot'', ''DISCOVER-AQ'', ''1, 1'',
      ''2014, 08, 02, 2014, 09, 01'', ''1'', ''Time_Start, seconds'', count, ''1, 1'',
      ''-9999, -9999'', ''TEMP, degC, Ambient temperature'', ''PRES, hPa, '']"

definition reader_of :: "int \<Rightarrow> ICARTTReader" where
  "reader_of n =
     \<lparr>self_path = ''f.ict'', self_info = \<lparr>path = ''f.ict'', header_length = n, ffi = ''1001''\<rparr>\<rparr>"


section \<open>Properties\<close>

subsection \<open>Splitting and reading lines\<close>

lemma split_acc_runs:
  "split_acc d cur s =
     (cur @ takeWhile (\<lambda>c. c \<noteq> d) s) #
     (case dropWhile (\<lambda>c. c \<noteq> d) s of [] \<Rightarrow> [] | _ # r \<Rightarrow> split_acc d [] r)"
  by (induction s arbitrary: cur) auto

lemma split_acc_not_Nil [simp]: "split_acc d cur s \<noteq> []"
  by (subst split_acc_runs) simp

lemma py_split_not_Nil [simp]: "py_split d s \<noteq> []"
  by (simp add: py_split_def)

lemma readline_runs:
  "readline s =
     (takeWhile (\<lambda>c. c \<noteq> CHR 0x0A) s @ take 1 (dropWhile (\<lambda>c. c \<noteq> CHR 0x0A) s),
      drop 1 (dropWhile (\<lambda>c. c \<noteq> CHR 0x0A) s))"
  by (induction s) auto

lemma readline_Nil_iff: "fst (readline s) = [] \<longleftrightarrow> s = []"
  by (cases s) (auto split: prod.splits)

lemma rstrip_nl_no_nl: "CHR 0x0A \<notin> set a \<Longrightarrow> rstrip_nl a = a"
  by (induction a rule: rev_induct) (auto simp: rstrip_nl_def)

lemma rstrip_nl_line: "CHR 0x0A \<notin> set a \<Longrightarrow> rstrip_nl (a @ [CHR 0x0A]) = a"
  using rstrip_nl_no_nl [of a] by (simp add: rstrip_nl_def)

lemma takeWhile_no_nl: "CHR 0x0A \<notin> set (takeWhile (\<lambda>c. c \<noteq> CHR 0x0A) s)"
  by (induction s) auto

lemma lines_of_Nil [simp]: "lines_of [] = []"
  by (simp add: lines_of_def py_split_def)

lemma lines_of_step:
  assumes "s \<noteq> []"
  shows "lines_of s = rstrip_nl (fst (readline s)) # lines_of (snd (readline s))"
proof (cases "dropWhile (\<lambda>c. c \<noteq> CHR 0x0A) s")
  case Nil
  then have a: "takeWhile (\<lambda>c. c \<noteq> CHR 0x0A) s = s"
    using takeWhile_dropWhile_id [of "\<lambda>c. c \<noteq> CHR 0x0A" s] by simp
  have sp: "py_split CHR 0x0A s = [s]"
    unfolding py_split_def by (subst split_acc_runs) (simp add: Nil a)
  have rl: "fst (readline s) = s" "snd (readline s) = []"
    by (subst readline_runs, simp add: Nil a)+
  have rs: "rstrip_nl s = s"
    using takeWhile_no_nl [of s] a by (simp add: rstrip_nl_no_nl)
  have "lines_of s = [s]"
    using assms by (simp add: lines_of_def sp)
  then show ?thesis
    by (simp only: rl rs lines_of_Nil)
next
  case (Cons d r)
  then have d: "d = CHR 0x0A"
    by (simp add: dropWhile_eq_Cons_conv)
  let ?a = "takeWhile (\<lambda>c. c \<noteq> CHR 0x0A) s"
  have sp: "py_split CHR 0x0A s = ?a # py_split CHR 0x0A r"
    unfolding py_split_def by (subst split_acc_runs) (simp add: Cons)
  have rl: "fst (readline s) = ?a @ [CHR 0x0A]" "snd (readline s) = r"
    by (subst readline_runs, simp add: Cons d)+
  have rs: "rstrip_nl (?a @ [CHR 0x0A]) = ?a"
    by (rule rstrip_nl_line) (rule takeWhile_no_nl)
  have "lines_of s = ?a # lines_of r"
    by (simp add: lines_of_def sp Let_def)
  then show ?thesis
    by (simp only: rl rs)
qed

lemma read_loop_take: "read_loop k f acc = acc @ take k (lines_of f)"
proof (induction k arbitrary: f acc)
  case 0
  show ?case by simp
next
  case (Suc k)
  show ?case
  proof (cases "f = []")
    case True
    then show ?thesis by simp
  next
    case False
    obtain line f' where rl: "readline f = (line, f')" by (cases "readline f")
    with False have "line \<noteq> []" using readline_Nil_iff [of f] by simp
    moreover have "lines_of f = rstrip_nl line # lines_of f'"
      using lines_of_step [OF False] rl by simp
    ultimately show ?thesis using rl Suc.IH by simp
  qed
qed


text \<open>
  C3. For a file of \<open>M\<close> lines and a reader whose header length is \<open>N\<close>,
  \<open>read_header_lines\<close> returns the first \<open>min N M\<close> lines of the file, each
  without its line terminator and otherwise unchanged. The method is total: it has no
  statement that raises, also when \<open>N\<close> exceeds \<open>M\<close>. (For \<open>N \<ge> 1\<close>,
  \<open>nat N\<close> is \<open>N\<close>.)
\<close>

theorem read_header_lines_take:
  "read_header_lines content self =
     take (nat (header_length (self_info self))) (file_lines content) \<and>
   length (read_header_lines content self) =
     min (nat (header_length (self_info self))) (length (file_lines content))"
  by (simp add: read_header_lines_def read_loop_take file_lines_def)

subsection \<open>The tokens of the first line\<close>

text \<open>
  \<open>read_info\<close> strips the first line before it splits it. The trimmed tokens are the
  same as those of the line itself: white space is no comma.
\<close>

lemma strip_ws_Cons: "py_isspace c \<Longrightarrow> strip (c # u) = strip u"
  by (simp add: strip_def)

lemma strip_ws_snoc:
  assumes "py_isspace c"
  shows "strip (u @ [c]) = strip u"
proof (cases "\<forall>x\<in>set u. py_isspace x")
  case True
  then have a: "dropWhile py_isspace u = []"
    by (simp only: dropWhile_eq_Nil_conv)
  have b: "dropWhile py_isspace (u @ [c]) = []"
    using True assms by (simp add: dropWhile_eq_Nil_conv)
  show ?thesis unfolding strip_def a b by simp
next
  case False
  then obtain x where "x \<in> set u" "\<not> py_isspace x" by blast
  then have a: "dropWhile py_isspace (u @ [c]) = dropWhile py_isspace u @ [c]"
    by (rule dropWhile_append1)
  show ?thesis unfolding strip_def a using assms by simp
qed

lemma split_acc_snoc:
  "c \<noteq> d \<Longrightarrow>
   split_acc d cur (xs @ [c]) =
     butlast (split_acc d cur xs) @ [last (split_acc d cur xs) @ [c]]"
  by (induction xs arbitrary: cur) auto

lemma split_acc_cur:
  "split_acc d cur s = (cur @ hd (split_acc d [] s)) # tl (split_acc d [] s)"
  using split_acc_runs [of d cur s] split_acc_runs [of d "[]" s] by simp

lemma comma_tokens_ws_Cons:
  assumes "py_isspace c"
  shows "comma_tokens (c # cs) = comma_tokens cs"
proof -
  let ?S = "split_acc CHR '','' [] cs"
  have ne: "c \<noteq> CHR '',''" using assms by (auto simp: py_isspace_def)
  have "map strip (split_acc CHR '','' [c] cs) = map strip ((c # hd ?S) # tl ?S)"
    using split_acc_cur [of "CHR '',''" "[c]" cs] by simp
  also have "\<dots> = map strip (hd ?S # tl ?S)"
    using strip_ws_Cons [OF assms] by (simp only: list.map)
  also have "\<dots> = map strip ?S"
    by (simp only: hd_Cons_tl [OF split_acc_not_Nil])
  finally show ?thesis using ne by (simp add: comma_tokens_def py_split_def)
qed

lemma comma_tokens_ws_snoc:
  assumes "py_isspace c"
  shows "comma_tokens (cs @ [c]) = comma_tokens cs"
proof -
  have ne: "c \<noteq> CHR '',''" using assms by (auto simp: py_isspace_def)
  let ?S = "split_acc CHR '','' [] cs"
  have "map strip (butlast ?S @ [last ?S @ [c]]) = map strip (butlast ?S @ [last ?S])"
    using strip_ws_snoc [OF assms] by (simp only: map_append list.map)
  also have "butlast ?S @ [last ?S] = ?S" by simp
  finally show ?thesis
    using split_acc_snoc [OF ne, of "[]" cs] by (simp add: comma_tokens_def py_split_def)
qed

lemma comma_tokens_dropWhile:
  assumes "\<And>c. P c \<Longrightarrow> py_isspace c"
  shows "comma_tokens (dropWhile P x) = comma_tokens x"
  by (induction x) (auto simp: comma_tokens_ws_Cons assms)

lemma comma_tokens_rdrop:
  assumes "\<And>c. P c \<Longrightarrow> py_isspace c"
  shows "comma_tokens (rev (dropWhile P (rev x))) = comma_tokens x"
  by (induction x rule: rev_induct) (auto simp: comma_tokens_ws_snoc assms)

lemma comma_tokens_strip: "comma_tokens (strip x) = comma_tokens x"
  by (simp add: strip_def comma_tokens_rdrop comma_tokens_dropWhile)

lemma comma_tokens_rstrip_nl: "comma_tokens (rstrip_nl x) = comma_tokens x"
  unfolding rstrip_nl_def by (rule comma_tokens_rdrop) (simp add: py_isspace_def)

lemma first_line_readline:
  "first_line content = rstrip_nl (fst (readline (universal_newlines content)))"
proof (cases "universal_newlines content = []")
  case True
  then show ?thesis by (simp add: first_line_def file_lines_def rstrip_nl_def)
next
  case False
  then show ?thesis
    by (simp add: first_line_def file_lines_def lines_of_step)
qed

lemma code_tokens:
  "map strip (py_split CHR '','' (strip (fst (readline (universal_newlines content))))) =
     comma_tokens (first_line content)"
proof -
  let ?l = "fst (readline (universal_newlines content))"
  have "map strip (py_split CHR '','' (strip ?l)) = comma_tokens (strip ?l)"
    by (simp add: comma_tokens_def)
  also have "\<dots> = comma_tokens (rstrip_nl ?l)"
    by (simp only: comma_tokens_strip comma_tokens_rstrip_nl)
  finally show ?thesis by (simp only: first_line_readline)
qed

lemma comma_tokens_not_Nil [simp]: "comma_tokens l \<noteq> []"
  by (simp add: comma_tokens_def)

lemma py_int_error: "py_int s = Inl e \<Longrightarrow> e = ValueError"
  by (auto simp: py_int_def split: list.splits if_splits option.splits)

lemma read_info_eq:
  "read_info p content =
     (let toks = comma_tokens (first_line content)
      in if length toks < 2 then Inl ValueError
         else (case py_int (hd toks) of
                 Inl e \<Rightarrow> Inl ValueError
               | Inr n \<Rightarrow> Inr \<lparr>path = p, header_length = n, ffi = toks ! 1\<rparr>))"
proof -
  let ?toks = "comma_tokens (first_line content)"
  show ?thesis
  proof (cases "length ?toks < 2")
    case True
    then show ?thesis unfolding read_info_def Let_def code_tokens by simp
  next
    case False
    then have "py_index ?toks 0 = Inr (hd ?toks)" "py_index ?toks 1 = Inr (?toks ! 1)"
      by (auto simp: py_index_def hd_conv_nth)
    with False show ?thesis
      unfolding read_info_def Let_def code_tokens
      by (auto simp: bind_err_def split: sum.splits dest: py_int_error)
  qed
qed

subsection \<open>Construction\<close>

text \<open>
  C2, as the code has it. \<open>read_info\<close> raises \<^verbatim>\<open>ValueError\<close>, and no other error,
  if and only if the first line splits on commas into fewer than two trimmed tokens, or the
  first token does not parse as an integer: a sign is accepted, so a negative first token
  does not raise. On success the result holds the integer value of the first token as
  \<open>header_length\<close> and the second token as \<open>ffi\<close>.
\<close>

theorem read_info_raises_iff:
  "(read_info p content = Inl ValueError \<longleftrightarrow>
      length (comma_tokens (first_line content)) < 2 \<or>
      (\<exists>e. py_int (hd (comma_tokens (first_line content))) = Inl e)) \<and>
   (\<forall>e. read_info p content = Inl e \<longrightarrow> e = ValueError) \<and>
   (\<forall>r. read_info p content = Inr r \<longrightarrow>
      2 \<le> length (comma_tokens (first_line content)) \<and>
      py_int (hd (comma_tokens (first_line content))) = Inr (header_length r) \<and>
      ffi r = comma_tokens (first_line content) ! 1 \<and> path r = p)"
  by (auto simp: read_info_eq Let_def split: sum.splits)

text \<open>The theorem at a first line that is accepted and at one with a single token.\<close>

theorem read_info_raises_iff_witness:
  "read_info ''f.ict'' ''14, 1001\<newline>PI\<newline>'' =
     Inr \<lparr>path = ''f.ict'', header_length = 14, ffi = ''1001''\<rparr> \<and>
   py_int (hd (comma_tokens (first_line ''14, 1001\<newline>PI\<newline>''))) = Inr 14 \<and>
   comma_tokens (first_line ''14, 1001\<newline>PI\<newline>'') ! 1 = ''1001'' \<and>
   read_info ''f.ict'' ''1001\<newline>'' = Inl ValueError \<and>
   length (comma_tokens (first_line ''1001\<newline>'')) < 2"
proof -
  have r: "read_info ''f.ict'' ''14, 1001\<newline>PI\<newline>'' =
             Inr \<lparr>path = ''f.ict'', header_length = 14, ffi = ''1001''\<rparr>"
    by code_simp
  have e: "read_info ''f.ict'' ''1001\<newline>'' = Inl ValueError"
    by code_simp
  from read_info_raises_iff [of "''f.ict''" "''14, 1001\<newline>PI\<newline>''"] r
  have "py_int (hd (comma_tokens (first_line ''14, 1001\<newline>PI\<newline>''))) = Inr 14 \<and>
        comma_tokens (first_line ''14, 1001\<newline>PI\<newline>'') ! 1 = ''1001''"
    by simp
  moreover from read_info_raises_iff [of "''f.ict''" "''1001\<newline>''"] e
  have "length (comma_tokens (first_line ''1001\<newline>'')) < 2 \<or>
        (\<exists>e. py_int (hd (comma_tokens (first_line ''1001\<newline>''))) = Inl e)"
    by simp
  moreover have "py_int (hd (comma_tokens (first_line ''1001\<newline>''))) = Inr 1001"
    by code_simp
  ultimately show ?thesis using r e by simp
qed

text \<open>
  C2 as the specification words it fails at the first line \<^verbatim>\<open>-5,1001\<close>: the first token
  does not parse as a non-negative integer, and \<open>read_info\<close> does not raise.
\<close>

theorem read_info_negative_counterexample:
  "\<not> ((\<exists>e. read_info ''f.ict'' ''-5,1001'' = Inl e) \<longleftrightarrow>
        (length (comma_tokens (first_line ''-5,1001'')) < 2 \<or>
         \<not> parses_nonneg (hd (comma_tokens (first_line ''-5,1001'')))))"
proof -
  have a: "read_info ''f.ict'' ''-5,1001'' =
             Inr \<lparr>path = ''f.ict'', header_length = - 5, ffi = ''1001''\<rparr>"
    by code_simp
  have b: "\<not> parses_nonneg (hd (comma_tokens (first_line ''-5,1001'')))"
    by code_simp
  show ?thesis using a b by simp
qed

text \<open>
  C1, as the code has it. Construction succeeds with header length \<open>n\<close> exactly when the
  first line has at least two comma-separated tokens and the first of them parses to the
  integer \<open>n\<close>. No bound is put on \<open>n\<close>: the cached header length of a reader is the
  value of the first token, which may be zero or negative.
\<close>

theorem init_header_length:
  "(\<exists>self. ICARTTReader_init p content = Inr self \<and> header_length (self_info self) = n) \<longleftrightarrow>
     2 \<le> length (comma_tokens (first_line content)) \<and>
     py_int (hd (comma_tokens (first_line content))) = Inr n"
  by (auto simp: ICARTTReader_init_def read_info_eq Let_def bind_err_def split: sum.splits)

text \<open>A reader constructed with header length \<open>- 3\<close>.\<close>

theorem init_header_length_witness:
  "\<exists>self. ICARTTReader_init ''f.ict'' ''-3,1001\<newline>'' = Inr self \<and>
          header_length (self_info self) = - 3"
proof -
  have "2 \<le> length (comma_tokens (first_line ''-3,1001\<newline>'')) \<and>
        py_int (hd (comma_tokens (first_line ''-3,1001\<newline>''))) = Inr (- 3)"
    by code_simp
  then show ?thesis
    using init_header_length [of "''f.ict''" "''-3,1001\<newline>''" "- 3"] by simp
qed

text \<open>
  C1 as the specification words it fails at the first line \<^verbatim>\<open>0,1001\<close>: construction
  succeeds, and the header length is below one.
\<close>

theorem init_zero_counterexample:
  "ICARTTReader_init ''f.ict'' ''0,1001'' =
     Inr \<lparr>self_path = ''f.ict'',
          self_info = \<lparr>path = ''f.ict'', header_length = 0, ffi = ''1001''\<rparr>\<rparr> \<and>
   \<not> 1 \<le> header_length (self_info
          \<lparr>self_path = ''f.ict'',
           self_info = \<lparr>path = ''f.ict'', header_length = 0, ffi = ''1001''\<rparr>\<rparr>)"
  by code_simp

subsection \<open>A header length that is not positive\<close>

lemma py_slice_Nil [simp]: "py_slice [] a b = []"
  by (simp add: py_slice_def)

text \<open>
  C9. For a reader whose header length is zero or negative (construction permits it, as the
  instance below shows), \<open>read_header_lines\<close> returns the empty list without raising,
  and \<open>read_table\<close> passes a skip count of \<open>0\<close> to the parser.
\<close>

theorem nonpositive_header_length:
  assumes "header_length (self_info self) \<le> 0"
  shows "read_header_lines content self = [] \<and>
         read_table_call content self na =
           Inr \<lparr>skiprows = 0, sep = '','',
                na_values = (case na of None \<Rightarrow> default_missing | Some vs \<Rightarrow> vs)\<rparr>"
proof -
  have l: "read_header_lines content self = []"
    using assms by (simp add: read_header_lines_def)
  have "guess_missing_values content self = Inr default_missing"
    by (simp add: guess_missing_values_def l bind_err_def)
  with assms l show ?thesis
    by (cases na) (simp_all add: read_table_call_def bind_err_def)
qed

text \<open>The theorem at a reader constructed from a file whose first token is \<^verbatim>\<open>-2\<close>.\<close>

theorem nonpositive_header_length_witness:
  "ICARTTReader_init ''f.ict'' ''-2,1001\<newline>a,b\<newline>1,2\<newline>'' =
     Inr \<lparr>self_path = ''f.ict'',
          self_info = \<lparr>path = ''f.ict'', header_length = - 2, ffi = ''1001''\<rparr>\<rparr> \<and>
   read_header_lines ''-2,1001\<newline>a,b\<newline>1,2\<newline>''
     \<lparr>self_path = ''f.ict'',
      self_info = \<lparr>path = ''f.ict'', header_length = - 2, ffi = ''1001''\<rparr>\<rparr> = [] \<and>
   read_table_call ''-2,1001\<newline>a,b\<newline>1,2\<newline>''
     \<lparr>self_path = ''f.ict'',
      self_info = \<lparr>path = ''f.ict'', header_length = - 2, ffi = ''1001''\<rparr>\<rparr> None =
     Inr \<lparr>skiprows = 0, sep = '','', na_values = [- 9999, - 99999, - 8888, 9999, 99999]\<rparr>"
proof -
  let ?c = "''-2,1001\<newline>a,b\<newline>1,2\<newline>''"
  let ?r = "\<lparr>self_path = ''f.ict'',
             self_info = \<lparr>path = ''f.ict'', header_length = - 2, ffi = ''1001''\<rparr>\<rparr>"
  have i: "ICARTTReader_init ''f.ict'' ?c = Inr ?r" by code_simp
  have h: "header_length (self_info ?r) \<le> 0" by simp
  from nonpositive_header_length [OF h, of ?c None] i show ?thesis
    by (simp add: default_missing_def)
qed

subsection \<open>Variable definitions\<close>

lemma py_slice_from: "0 \<le> a \<Longrightarrow> py_slice xs a (int (length xs)) = drop (nat a) xs"
  by (auto simp: py_slice_def min_def Let_def)

lemma py_slice_block:
  "0 \<le> a \<Longrightarrow> 0 \<le> n \<Longrightarrow> a + n \<le> int (length xs) \<Longrightarrow>
   py_slice xs a (a + n) = take (nat n) (drop (nat a) xs)"
  by (auto simp: py_slice_def min_def Let_def)

lemma var_of_line_eq: "var_of_line l = Inr (Some (spec_entry l))"
proof -
  let ?toks = "comma_tokens l"
  have ne: "?toks \<noteq> []" by simp
  then have i0: "py_index ?toks 0 = Inr (hd ?toks)"
    by (simp add: py_index_def hd_conv_nth)
  have i1: "1 < length ?toks \<Longrightarrow> py_index ?toks 1 = Inr (?toks ! 1)"
    by (simp add: py_index_def)
  have sl: "py_slice ?toks 2 (int (length ?toks)) = drop 2 ?toks"
    using py_slice_from [of 2 ?toks] by simp
  show ?thesis
    unfolding var_of_line_def Let_def comma_tokens_def [symmetric]
    using ne
    by (cases "1 < length ?toks")
       (auto simp: i0 i1 sl bind_err_def spec_entry_def or_none_def Let_def)
qed

lemma var_loop_eq: "var_loop ls out = Inr (out @ map spec_entry ls)"
  by (induction ls arbitrary: out) (simp_all add: var_of_line_eq bind_err_def)

text \<open>
  C4. When at least 11 header lines exist, line index 9 parses as an integer
  \<open>count \<ge> 1\<close> and the header has the lines up to index \<open>12 + count - 1\<close>,
  \<open>read_variable_defs\<close> returns \<open>count\<close> entries, in file order, one for each line of
  the block from index 12: the name is the first trimmed token (also when it is empty), the
  unit the second token with the empty string as absent, the description the remaining
  tokens joined with commas and trimmed, with the empty string as absent.
\<close>

theorem read_variable_defs_layout:
  assumes "11 \<le> length (read_header_lines content self)"
    and "py_int (strip (read_header_lines content self ! 9)) = Inr count"
    and "1 \<le> count"
    and "12 + count \<le> int (length (read_header_lines content self))"
  shows "read_variable_defs content self =
           Inr (map spec_entry (take (nat count) (drop 12 (read_header_lines content self)))) \<and>
         int (length (map spec_entry
                (take (nat count) (drop 12 (read_header_lines content self))))) = count"
proof -
  let ?lines = "read_header_lines content self"
  have i9: "py_index ?lines 9 = Inr (?lines ! 9)"
    using assms(1) by (simp add: py_index_def)
  have bl: "py_slice ?lines 12 (12 + count) = take (nat count) (drop 12 ?lines)"
    using py_slice_block [of 12 count ?lines] assms(3,4) by simp
  have "read_variable_defs content self = Inr (map spec_entry (take (nat count) (drop 12 ?lines)))"
    using assms(1,2)
    by (simp add: read_variable_defs_def Let_def i9 bl bind_err_def var_loop_eq
                  guess_per_variable_missing_def)
  moreover have "int (length (take (nat count) (drop 12 ?lines))) = count"
    using assms(3,4) by simp
  ultimately show ?thesis by simp
qed

text \<open>The theorem at a file with header length 14 and two variables.\<close>

theorem read_variable_defs_layout_witness:
  "ICARTTReader_init ''f.ict''
     (file_of_lines (conventional_header ''14, 1001'' ''2'' @ [''0, 21.5, 1013.2''])) =
     Inr (reader_of 14) \<and>
   read_variable_defs
     (file_of_lines (conventional_header ''14, 1001'' ''2'' @ [''0, 21.5, 1013.2'']))
     (reader_of 14) =
     Inr [\<lparr>name = ''TEMP'', unit = Some ''degC'', description = Some ''Ambient temperature'',
           missing = None\<rparr>,
          \<lparr>name = ''PRES'', unit = Some ''hPa'', description = None, missing = None\<rparr>]"
proof -
  let ?c = "file_of_lines (conventional_header ''14, 1001'' ''2'' @ [''0, 21.5, 1013.2''])"
  let ?r = "reader_of 14"
  have i: "ICARTTReader_init ''f.ict'' ?c = Inr ?r" by code_simp
  have h1: "11 \<le> length (read_header_lines ?c ?r)" by code_simp
  have h2: "py_int (strip (read_header_lines ?c ?r ! 9)) = Inr 2" by code_simp
  have h3: "(1::int) \<le> 2" by simp
  have h4: "12 + 2 \<le> int (length (read_header_lines ?c ?r))" by code_simp
  have e: "map spec_entry (take (nat 2) (drop 12 (read_header_lines ?c ?r))) =
             [\<lparr>name = ''TEMP'', unit = Some ''degC'',
               description = Some ''Ambient temperature'', missing = None\<rparr>,
              \<lparr>name = ''PRES'', unit = Some ''hPa'', description = None, missing = None\<rparr>]"
    by code_simp
  from read_variable_defs_layout [OF h1 h2 h3 h4] e i show ?thesis by simp
qed

text \<open>
  The scenario of the specification has the first line \<^verbatim>\<open>13,1001\<close>. Its header then
  ends at index 12, the line at index 13 is not part of it, and one entry is returned.
\<close>

lemma scenario_13_1001:
  "read_variable_defs
     (file_of_lines (conventional_header ''13,1001'' ''2'' @ [''0, 21.5, 1013.2'']))
     (reader_of 13) =
     Inr [\<lparr>name = ''TEMP'', unit = Some ''degC'', description = Some ''Ambient temperature'',
           missing = None\<rparr>]"
  by code_simp

text \<open>
  C5. \<open>read_variable_defs\<close> returns the empty list, without raising, whenever fewer than
  11 header lines are available, or the trimmed line at index 9 does not parse as an
  integer.
\<close>

theorem read_variable_defs_empty:
  assumes "length (read_header_lines content self) < 11 \<or>
           (\<exists>e. py_int (strip (read_header_lines content self ! 9)) = Inl e)"
  shows "read_variable_defs content self = Inr []"
proof (cases "length (read_header_lines content self) < 11")
  case True
  then show ?thesis by (simp add: read_variable_defs_def)
next
  case False
  then have "py_index (read_header_lines content self) 9 = Inr (read_header_lines content self ! 9)"
    by (simp add: py_index_def)
  with False assms show ?thesis
    by (auto simp: read_variable_defs_def Let_def bind_err_def)
qed

text \<open>The theorem at a header of five lines, and at a line 10 that reads \<^verbatim>\<open>two\<close>.\<close>

theorem read_variable_defs_empty_witness:
  "read_variable_defs
     (file_of_lines (conventional_header ''5, 1001'' ''2'' @ [''0, 21.5, 1013.2'']))
     (reader_of 5) = Inr [] \<and>
   read_variable_defs
     (file_of_lines (conventional_header ''14, 1001'' ''two'' @ [''0, 21.5, 1013.2'']))
     (reader_of 14) = Inr []"
proof -
  let ?a = "file_of_lines (conventional_header ''5, 1001'' ''2'' @ [''0, 21.5, 1013.2''])"
  let ?b = "file_of_lines (conventional_header ''14, 1001'' ''two'' @ [''0, 21.5, 1013.2''])"
  have ha: "length (read_header_lines ?a (reader_of 5)) < 11" by code_simp
  have hb: "py_int (strip (read_header_lines ?b (reader_of 14) ! 9)) = Inl ValueError"
    by code_simp
  from ha have a: "read_variable_defs ?a (reader_of 5) = Inr []"
    by (intro read_variable_defs_empty) simp
  from hb have b: "read_variable_defs ?b (reader_of 14) = Inr []"
    by (intro read_variable_defs_empty) blast
  from a b show ?thesis by simp
qed

text \<open>
  A count from \<open>- 12\<close> to \<open>0\<close> gives an empty block. Below \<open>- 12\<close> the upper bound
  \<open>12 + n_dep\<close> of the slice is negative, and Python counts it from the end of the list.
\<close>

lemma read_variable_defs_small_count:
  assumes "11 \<le> length (read_header_lines content self)"
    and "py_int (strip (read_header_lines content self ! 9)) = Inr n"
    and "- 12 \<le> n" and "n \<le> 0"
  shows "read_variable_defs content self = Inr []"
proof -
  let ?lines = "read_header_lines content self"
  have i9: "py_index ?lines 9 = Inr (?lines ! 9)"
    using assms(1) by (simp add: py_index_def)
  have "py_slice ?lines 12 (12 + n) = []"
    using assms(3,4) by (auto simp: py_slice_def min_def)
  then show ?thesis
    using assms(1,2)
    by (simp add: read_variable_defs_def Let_def i9 bind_err_def
                  guess_per_variable_missing_def)
qed

text \<open>
  C10 at a header of 15 lines whose line 10 reads \<^verbatim>\<open>-13\<close>: the block is
  \<^verbatim>\<open>lines[12:-1]\<close>, the lines at index 12 and 13, and two entries are returned.
\<close>

theorem read_variable_defs_negative_count:
  "ICARTTReader_init ''f.ict''
     (file_of_lines (conventional_header ''15, 1001'' ''-13'' @ [''t, a, b'', ''0, 21.5, 1013.2''])) =
     Inr (reader_of 15) \<and>
   py_int (strip (read_header_lines
     (file_of_lines (conventional_header ''15, 1001'' ''-13'' @ [''t, a, b'', ''0, 21.5, 1013.2'']))
     (reader_of 15) ! 9)) = Inr (- 13) \<and>
   read_variable_defs
     (file_of_lines (conventional_header ''15, 1001'' ''-13'' @ [''t, a, b'', ''0, 21.5, 1013.2'']))
     (reader_of 15) =
     Inr [\<lparr>name = ''TEMP'', unit = Some ''degC'', description = Some ''Ambient temperature'',
           missing = None\<rparr>,
          \<lparr>name = ''PRES'', unit = Some ''hPa'', description = None, missing = None\<rparr>]"
  by code_simp

subsection \<open>Metadata\<close>

lemma safe_eq: "safe lines (int i) = Inr (header_field lines i)"
  by (simp add: safe_def header_field_def py_index_def bind_err_def)

lemma str_nat_not_Nil: "str_nat n \<noteq> []"
  by (subst str_nat.simps) simp

lemma str_int_not_Nil: "str_int i \<noteq> []"
  by (simp add: str_int_def str_nat_not_Nil)

lemma map_of_filter_nonempty:
  "distinct (map fst m) \<Longrightarrow>
   map_of (filter (\<lambda>(k, v). v \<noteq> []) m) k =
     (case map_of m k of None \<Rightarrow> None | Some v \<Rightarrow> present v)"
proof (induction m)
  case Nil
  show ?case by simp
next
  case (Cons a m)
  obtain k' v' where a: "a = (k', v')" by (cases a)
  from Cons.prems a have notin: "k' \<notin> fst ` set m" by simp
  then have "map_of (filter (\<lambda>(k, v). v \<noteq> []) m) k' = None"
    by (force simp: map_of_eq_None_iff)
  with Cons a show ?case by (auto simp: present_def)
qed

lemma read_metadata_eq:
  "read_metadata content self =
     Inr (filter (\<lambda>(k, v). v \<noteq> [])
       [(''path'', self_path self),
        (''header_length'', str_int (header_length (self_info self))),
        (''ffi'', ffi (self_info self)),
        (''pi'', header_field (read_header_lines content self) 1),
        (''organization'', header_field (read_header_lines content self) 2),
        (''data_description'', header_field (read_header_lines content self) 3),
        (''mission'', header_field (read_header_lines content self) 4),
        (''volume_info'', header_field (read_header_lines content self) 5),
        (''date_info'', header_field (read_header_lines content self) 6),
        (''data_interval'', header_field (read_header_lines content self) 7),
        (''independent_variable'', header_field (read_header_lines content self) 8)])"
proof -
  have s: "safe lines 1 = Inr (header_field lines 1)" "safe lines 2 = Inr (header_field lines 2)"
    "safe lines 3 = Inr (header_field lines 3)" "safe lines 4 = Inr (header_field lines 4)"
    "safe lines 5 = Inr (header_field lines 5)" "safe lines 6 = Inr (header_field lines 6)"
    "safe lines 7 = Inr (header_field lines 7)" "safe lines 8 = Inr (header_field lines 8)"
    for lines
    using safe_eq [of lines 1] safe_eq [of lines 2] safe_eq [of lines 3] safe_eq [of lines 4]
      safe_eq [of lines 5] safe_eq [of lines 6] safe_eq [of lines 7] safe_eq [of lines 8]
    by simp_all
  show ?thesis
    unfolding read_metadata_def Let_def s bind_err_def by simp
qed

text \<open>
  C7. For every reader and every file content, \<open>read_metadata\<close> does not raise; every
  value of the result is a non-empty string and every key is one of the fixed keys; the
  result contains \<^verbatim>\<open>path\<close> and \<^verbatim>\<open>header_length\<close>; each other key (\<^verbatim>\<open>ffi\<close>,
  \<^verbatim>\<open>pi\<close>, \<^verbatim>\<open>organization\<close>, \<^verbatim>\<open>data_description\<close>, \<^verbatim>\<open>mission\<close>,
  \<^verbatim>\<open>volume_info\<close>, \<^verbatim>\<open>date_info\<close>, \<^verbatim>\<open>data_interval\<close>,
  \<^verbatim>\<open>independent_variable\<close>) is there exactly when its trimmed source value is not
  empty, with that value. The path of a reader is the string \<^verbatim>\<open>str(Path(path))\<close>,
  which \<^verbatim>\<open>pathlib\<close> never renders empty (the empty path is \<^verbatim>\<open>.\<close>): this is the
  hypothesis.
\<close>

theorem read_metadata_total:
  assumes "self_path self \<noteq> []"
  shows "\<exists>m. read_metadata content self = Inr m \<and>
           (\<forall>k v. (k, v) \<in> set m \<longrightarrow> v \<noteq> [] \<and> k \<in> set metadata_keys) \<and>
           distinct (map fst m) \<and>
           map_of m ''path'' = Some (self_path self) \<and>
           map_of m ''header_length'' = Some (str_int (header_length (self_info self))) \<and>
           map_of m ''ffi'' = present (ffi (self_info self)) \<and>
           map_of m ''pi'' = present (header_field (read_header_lines content self) 1) \<and>
           map_of m ''organization'' = present (header_field (read_header_lines content self) 2) \<and>
           map_of m ''data_description'' =
             present (header_field (read_header_lines content self) 3) \<and>
           map_of m ''mission'' = present (header_field (read_header_lines content self) 4) \<and>
           map_of m ''volume_info'' = present (header_field (read_header_lines content self) 5) \<and>
           map_of m ''date_info'' = present (header_field (read_header_lines content self) 6) \<and>
           map_of m ''data_interval'' = present (header_field (read_header_lines content self) 7) \<and>
           map_of m ''independent_variable'' =
             present (header_field (read_header_lines content self) 8)"
proof -
  let ?l = "read_header_lines content self"
  let ?full = "[(''path'', self_path self),
        (''header_length'', str_int (header_length (self_info self))),
        (''ffi'', ffi (self_info self)),
        (''pi'', header_field ?l 1), (''organization'', header_field ?l 2),
        (''data_description'', header_field ?l 3), (''mission'', header_field ?l 4),
        (''volume_info'', header_field ?l 5), (''date_info'', header_field ?l 6),
        (''data_interval'', header_field ?l 7), (''independent_variable'', header_field ?l 8)]"
  let ?m = "filter (\<lambda>(k, v). v \<noteq> []) ?full"
  have d: "distinct (map fst ?full)" by simp
  have keys: "fst ` set ?full \<subseteq> set metadata_keys" by (simp add: metadata_keys_def)
  have m: "read_metadata content self = Inr ?m" by (rule read_metadata_eq)
  have vals: "\<forall>k v. (k, v) \<in> set ?m \<longrightarrow> v \<noteq> [] \<and> k \<in> set metadata_keys"
  proof (intro allI impI)
    fix k v assume "(k, v) \<in> set ?m"
    then have "(k, v) \<in> set ?full" "v \<noteq> []" by (simp_all only: set_filter, auto)
    with keys show "v \<noteq> [] \<and> k \<in> set metadata_keys" by force
  qed
  have dm: "distinct (map fst ?m)" using d by (rule distinct_map_filter)
  have look: "map_of ?m k = (case map_of ?full k of None \<Rightarrow> None | Some v \<Rightarrow> present v)" for k
    using d by (rule map_of_filter_nonempty)
  have p: "present (self_path self) = Some (self_path self)"
    using assms by (simp add: present_def)
  have h: "present (str_int (header_length (self_info self))) =
             Some (str_int (header_length (self_info self)))"
    by (simp add: present_def str_int_not_Nil)
  have "map_of ?m ''path'' = Some (self_path self)" by (simp only: look) (simp add: p)
  moreover have "map_of ?m ''header_length'' = Some (str_int (header_length (self_info self)))"
    by (simp only: look) (simp add: h)
  moreover have "map_of ?m ''ffi'' = present (ffi (self_info self))" by (simp only: look) simp
  moreover have "map_of ?m ''pi'' = present (header_field ?l 1)" by (simp only: look) simp
  moreover have "map_of ?m ''organization'' = present (header_field ?l 2)"
    by (simp only: look) simp
  moreover have "map_of ?m ''data_description'' = present (header_field ?l 3)"
    by (simp only: look) simp
  moreover have "map_of ?m ''mission'' = present (header_field ?l 4)" by (simp only: look) simp
  moreover have "map_of ?m ''volume_info'' = present (header_field ?l 5)"
    by (simp only: look) simp
  moreover have "map_of ?m ''date_info'' = present (header_field ?l 6)" by (simp only: look) simp
  moreover have "map_of ?m ''data_interval'' = present (header_field ?l 7)"
    by (simp only: look) simp
  moreover have "map_of ?m ''independent_variable'' = present (header_field ?l 8)"
    by (simp only: look) simp
  ultimately show ?thesis using m vals dm by blast
qed

text \<open>
  The theorem at a file whose header has two lines: the principal investigator is found,
  the organization is not.
\<close>

theorem read_metadata_total_witness:
  "self_path (reader_of 2) \<noteq> [] \<and>
   (\<exists>m. read_metadata (file_of_lines [''2, 1001'', ''Doe, Jane'', ''t, a'', ''0, 1'']) (reader_of 2)
          = Inr m \<and>
        map_of m ''path'' = Some ''f.ict'' \<and>
        map_of m ''header_length'' = Some ''2'' \<and>
        map_of m ''pi'' = Some ''Doe, Jane'' \<and>
        map_of m ''organization'' = None)"
proof -
  let ?c = "file_of_lines [''2, 1001'', ''Doe, Jane'', ''t, a'', ''0, 1'']"
  have h: "self_path (reader_of 2) \<noteq> []" by (simp add: reader_of_def)
  have e: "self_path (reader_of 2) = ''f.ict''"
    "str_int (header_length (self_info (reader_of 2))) = ''2''"
    "present (header_field (read_header_lines ?c (reader_of 2)) 1) = Some ''Doe, Jane''"
    "present (header_field (read_header_lines ?c (reader_of 2)) 2) = None"
    by code_simp+
  from read_metadata_total [OF h, of ?c] obtain m where
    "read_metadata ?c (reader_of 2) = Inr m"
    "map_of m ''path'' = Some (self_path (reader_of 2))"
    "map_of m ''header_length'' = Some (str_int (header_length (self_info (reader_of 2))))"
    "map_of m ''pi'' = present (header_field (read_header_lines ?c (reader_of 2)) 1)"
    "map_of m ''organization'' = present (header_field (read_header_lines ?c (reader_of 2)) 2)"
    by blast
  with e h show ?thesis by (intro conjI exI [of _ m]) simp_all
qed

subsection \<open>Missing values\<close>

lemma digits_acc_foldl:
  "list_all is_ascii_digit ds \<Longrightarrow>
   digits_acc acc ds = Some (foldl (\<lambda>a c. 10 * a + digit_val c) acc ds)"
  by (induction ds arbitrary: acc) simp_all

lemma parse_unsigned_digits:
  "ds \<noteq> [] \<Longrightarrow> list_all is_ascii_digit ds \<Longrightarrow> parse_unsigned ds = Some (decimal_value ds)"
  by (cases ds) (simp_all add: parse_unsigned_def decimal_value_def digits_acc_foldl)

lemma py_int_signed: "signed_digits tok \<Longrightarrow> py_int tok = Inr (signed_value tok)"
  by (cases tok)
     (auto simp: signed_digits_def py_int_def signed_value_def parse_unsigned_digits)

lemma signed_digits_guard:
  "signed_digits tok \<Longrightarrow> startswith_sign tok \<and> py_isdigit (drop 1 tok)"
  by (cases tok)
     (auto simp: signed_digits_def startswith_sign_def py_isdigit_def py_isdigit_char_def
                 list_all_iff)

lemma tok_loop_eq:
  "list_all (\<lambda>tok. \<not> odd_digit_token tok) toks \<Longrightarrow>
   tok_loop toks cands =
     Inr (cands @ filter (\<lambda>v. 999 \<le> \<bar>v\<bar>) (map signed_value (filter signed_digits toks)))"
proof (induction toks arbitrary: cands)
  case Nil
  show ?case by simp
next
  case (Cons tok toks)
  then have rest: "list_all (\<lambda>tok. \<not> odd_digit_token tok) toks"
    and ok: "\<not> odd_digit_token tok" by simp_all
  show ?case
  proof (cases "signed_digits tok")
    case True
    with signed_digits_guard [OF True] py_int_signed [OF True] Cons.IH [OF rest]
    show ?thesis by (simp add: bind_err_def)
  next
    case False
    with ok have "\<not> (startswith_sign tok \<and> py_isdigit (drop 1 tok))"
      by (simp add: odd_digit_token_def)
    with False Cons.IH [OF rest] show ?thesis by auto
  qed
qed

lemma line_loop_eq:
  "list_all (\<lambda>tok. \<not> odd_digit_token tok)
     (concat (map (\<lambda>l. py_ws_split (replace_comma l)) ls)) \<Longrightarrow>
   line_loop ls cands =
     Inr (cands @ filter (\<lambda>v. 999 \<le> \<bar>v\<bar>)
       (map signed_value (filter signed_digits
         (concat (map (\<lambda>l. py_ws_split (replace_comma l)) ls)))))"
  by (induction ls arbitrary: cands) (simp_all add: tok_loop_eq bind_err_def)

lemma py_slice_200: "py_slice ls 0 (min (int (length ls)) 200) = take 200 ls"
  by (auto simp: py_slice_def Let_def min_def)

lemma remdups_drop_earlier: "v \<in> set ys \<Longrightarrow> remdups (xs @ v # ys) = remdups (xs @ ys)"
  by (induction xs) auto

lemma dedup_loop_eq:
  "distinct acc \<Longrightarrow> dedup_loop vs (set acc) acc = rev (remdups (rev (acc @ vs)))"
proof (induction vs arbitrary: acc)
  case Nil
  then show ?case by (simp add: distinct_remdups_id)
next
  case (Cons v vs)
  show ?case
  proof (cases "v \<in> set acc")
    case True
    then have "remdups (rev vs @ v # rev acc) = remdups (rev vs @ rev acc)"
      by (intro remdups_drop_earlier) simp
    with True Cons.IH [OF Cons.prems] show ?thesis by simp
  next
    case False
    with Cons.prems have "distinct (acc @ [v])" by simp
    from Cons.IH [OF this] False show ?thesis by simp
  qed
qed

lemma dedup_loop_first_occurrences: "dedup_loop vs {} [] = first_occurrences vs"
  using dedup_loop_eq [of "[]" vs] by (simp add: first_occurrences_def)

lemma first_occurrences_Nil_iff: "first_occurrences vs = [] \<longleftrightarrow> vs = []"
  by (simp add: first_occurrences_def)

lemma first_occurrences_distinct: "distinct (first_occurrences vs)"
  by (simp add: first_occurrences_def)

lemma first_occurrences_set: "set (first_occurrences vs) = set vs"
  by (simp add: first_occurrences_def)

lemma guess_missing_values_eq:
  assumes "list_all (\<lambda>tok. \<not> odd_digit_token tok)
             (header_tokens (read_header_lines content self))"
  shows "guess_missing_values content self =
           Inr (if spec_candidates (read_header_lines content self) = [] then default_missing
                else first_occurrences (spec_candidates (read_header_lines content self)))"
proof -
  let ?lines = "read_header_lines content self"
  have "line_loop (take 200 ?lines) [] = Inr (spec_candidates ?lines)"
    using assms line_loop_eq [of "take 200 ?lines" "[]"]
    by (simp add: header_tokens_def spec_candidates_def)
  then show ?thesis
    by (simp add: guess_missing_values_def Let_def py_slice_200 bind_err_def
                  dedup_loop_first_occurrences first_occurrences_Nil_iff)
qed

lemma guess_missing_values_unfold:
  "guess_missing_values content self =
     bind_err (line_loop (take 200 (read_header_lines content self)) []) (\<lambda>cands.
       Inr (if cands = [] then default_missing else first_occurrences cands))"
  by (simp add: guess_missing_values_def Let_def py_slice_200
                dedup_loop_first_occurrences first_occurrences_Nil_iff)

text \<open>
  C6, as the code has it. Over the tokens of the first at most 200 header lines, the
  heuristic collects the values of exactly the tokens that begin with \<^verbatim>\<open>+\<close> or
  \<^verbatim>\<open>-\<close>, continue with digits only and have magnitude at least 999, and removes
  duplicates keeping the first occurrence. It returns that list when it is not empty, and
  the list \<open>[-9999, -99999, -8888, 9999, 99999]\<close> when there is no candidate. The
  statement is about headers without an odd token; what the code does on an odd token is
  not part of it.
\<close>

theorem guess_missing_values_spec:
  assumes "list_all (\<lambda>tok. \<not> odd_digit_token tok)
             (header_tokens (read_header_lines content self))"
  shows "guess_missing_values content self =
           Inr (if spec_candidates (read_header_lines content self) = [] then default_missing
                else first_occurrences (spec_candidates (read_header_lines content self)))"
  using assms by (rule guess_missing_values_eq)

text \<open>
  The theorem at a header line with seven signed tokens, five of them of magnitude at least
  999 and two values repeated.
\<close>

theorem guess_missing_values_spec_witness:
  "list_all (\<lambda>tok. \<not> odd_digit_token tok)
     (header_tokens (read_header_lines
        (file_of_lines [''2, 1001'', ''+999 -0999 +1000,-5,-999,+00999 - -a 999'', ''0, 1''])
        (reader_of 2))) \<and>
   spec_candidates (read_header_lines
        (file_of_lines [''2, 1001'', ''+999 -0999 +1000,-5,-999,+00999 - -a 999'', ''0, 1''])
        (reader_of 2)) = [999, - 999, 1000, - 999, 999] \<and>
   guess_missing_values
     (file_of_lines [''2, 1001'', ''+999 -0999 +1000,-5,-999,+00999 - -a 999'', ''0, 1''])
     (reader_of 2) = Inr [999, - 999, 1000]"
proof -
  let ?c = "file_of_lines [''2, 1001'', ''+999 -0999 +1000,-5,-999,+00999 - -a 999'', ''0, 1'']"
  have h: "list_all (\<lambda>tok. \<not> odd_digit_token tok)
             (header_tokens (read_header_lines ?c (reader_of 2)))"
    by code_simp
  have s: "spec_candidates (read_header_lines ?c (reader_of 2)) = [999, - 999, 1000, - 999, 999]"
    by code_simp
  have f: "first_occurrences [999, - 999, 1000, - 999, 999] = [999, - 999, 1000]"
    by code_simp
  have "guess_missing_values ?c (reader_of 2) = Inr [999, - 999, 1000]"
    using guess_missing_values_spec [OF h] unfolding s f by simp
  with h s show ?thesis by (intro conjI)
qed

text \<open>
  C6 as the specification words it, with "if and only if", fails at a header whose
  candidates are the five default values in the default order: the default list is
  returned and candidates exist.
\<close>

theorem guess_default_counterexample:
  "\<not> (guess_missing_values
         (file_of_lines [''2, 1001'', ''-9999 -99999 -8888 +9999 +99999'', ''0, 1''])
         (reader_of 2) = Inr [- 9999, - 99999, - 8888, 9999, 99999] \<longleftrightarrow>
       spec_candidates (read_header_lines
         (file_of_lines [''2, 1001'', ''-9999 -99999 -8888 +9999 +99999'', ''0, 1''])
         (reader_of 2)) = [])"
proof -
  let ?c = "file_of_lines [''2, 1001'', ''-9999 -99999 -8888 +9999 +99999'', ''0, 1'']"
  let ?toks = "[''2'', ''1001'', ''-9999'', ''-99999'', ''-8888'', ''+9999'', ''+99999'']"
  have t: "header_tokens (read_header_lines ?c (reader_of 2)) = ?toks"
    by code_simp
  have n: "list_all (\<lambda>tok. \<not> odd_digit_token tok) ?toks"
    by code_simp
  have sd: "filter signed_digits ?toks =
              [''-9999'', ''-99999'', ''-8888'', ''+9999'', ''+99999'']"
    by code_simp
  have v: "map signed_value [''-9999'', ''-99999'', ''-8888'', ''+9999'', ''+99999''] =
             [- 9999, - 99999, - 8888, 9999, 99999]"
    by (simp add: signed_value_def decimal_value_def digit_val_def)
  have b: "spec_candidates (read_header_lines ?c (reader_of 2)) =
             [- 9999, - 99999, - 8888, 9999, 99999]"
    unfolding spec_candidates_def t sd v by simp
  have f: "first_occurrences [- 9999, - 99999, - 8888, 9999, 99999::int] =
             [- 9999, - 99999, - 8888, 9999, 99999]"
    by (simp add: first_occurrences_def)
  have h: "list_all (\<lambda>tok. \<not> odd_digit_token tok)
             (header_tokens (read_header_lines ?c (reader_of 2)))"
    unfolding t by (rule n)
  have a: "guess_missing_values ?c (reader_of 2) = Inr [- 9999, - 99999, - 8888, 9999, 99999]"
    using guess_missing_values_eq [OF h] unfolding b f by simp
  have "spec_candidates (read_header_lines ?c (reader_of 2)) \<noteq> []"
    unfolding b by simp
  with a show ?thesis by blast
qed

text \<open>
  On the odd token \<^verbatim>\<open>-\<close> followed by a superscript two, \<^verbatim>\<open>isdigit()\<close> lets the token
  through and \<^verbatim>\<open>int()\<close> raises: the heuristic raises \<^verbatim>\<open>ValueError\<close>.
\<close>

lemma guess_missing_values_superscript:
  "guess_missing_values
     (file_of_lines [''2, 1001'', ''m s '' @ [CHR ''-'', CHR 0xB2], ''0, 1'']) (reader_of 2) =
     Inl ValueError"
proof -
  let ?c = "file_of_lines [''2, 1001'', ''m s '' @ [CHR ''-'', CHR 0xB2], ''0, 1'']"
  have l: "line_loop (take 200 (read_header_lines ?c (reader_of 2))) [] = Inl ValueError"
    by code_simp
  show ?thesis unfolding guess_missing_values_unfold l by (simp add: bind_err_def)
qed

text \<open>The reader of these examples is the one construction returns.\<close>

lemma init_example_2:
  "ICARTTReader_init ''f.ict''
     (file_of_lines [''2, 1001'', ''-9999 -99999 -8888 +9999 +99999'', ''0, 1'']) =
     Inr (reader_of 2)"
  by code_simp


end
